theory Spec2Isabelle
  imports Main "HOL-Library.Word"
begin

section \<open>AIBasketStrategy: data model\<close>

text \<open>
  The contract \<open>AIBasketStrategy\<close> (Solidity 0.8) is embedded as pure functions over an
  explicit state. An \<open>address\<close> is a 160-bit word. A \<open>uint256\<close> is a natural number;
  Solidity 0.8 arithmetic is checked, so every \<open>+\<close>, \<open>*\<close> and \<open>**\<close> of the source is a
  checked operation that fails with \<open>Panic 17\<close> (code 0x11) when the result does not fit
  in 256 bits. A failed \<open>require\<close> is \<open>Require msg\<close> with the message of the source.
  A function that can revert returns \<open>error + 'a\<close>; \<open>Inl e\<close> is the revert.

  The access modifiers (\<open>onlyOwner\<close>, \<open>onlyVault\<close>, \<open>nonReentrant\<close>) are not part of the
  embedding: every function is modelled as called by an authorised caller. Tokens are
  taken to be well-behaved ERC-20 contracts (\<open>balanceOf\<close>, \<open>decimals\<close> and
  \<open>forceApprove\<close> do not revert) and price feeds answer every call. The deadline
  argument of the swap is not modelled.
\<close>

type_synonym address = "160 word"
type_synonym uint256 = nat

datatype error = Require string | Panic nat

record TokenAllocation =
  token :: address
  percentage :: uint256

text \<open>
  What the strategy sees of the chain outside its own storage: its balance of each token,
  the allowance it has granted to the router for each token, and the exchange's own state
  (pool reserves), of an arbitrary type \<open>'x\<close>.
\<close>

record 'x chain =
  balanceOf :: "address \<Rightarrow> uint256"
  allowance :: "address \<Rightarrow> uint256"
  pools :: 'x

datatype router_call =
    GetAmountsOut uint256 "address list"
  | SwapExactTokensForTokens uint256 uint256 "address list"

text \<open>The events emitted by the functions that are embedded here.\<close>

datatype event =
    AllocationUpdated address uint256
  | AIRebalance uint256 nat
  | EmergencyExit address uint256

text \<open>
  The storage of the contract (\<open>allocations\<close>, \<open>allowedTokens\<close>, \<open>priceFeeds\<close>), the
  chain, the sequence of calls made to the router so far (\<open>routerCalls\<close>, an
  observation of the external calls, not a storage variable) and the events emitted so
  far (\<open>events\<close>). A missing entry of \<open>priceFeeds\<close> is the zero address, as in the source.
\<close>

record 'x state =
  allocations :: "TokenAllocation list"
  allowedTokens :: "address \<Rightarrow> bool"
  priceFeeds :: "address \<Rightarrow> address"
  chain :: "'x chain"
  routerCalls :: "router_call list"
  events :: "event list"

text \<open>
  The immutables of the contract and the external contracts it calls: the token
  \<open>decimals()\<close>, each feed's \<open>latestRoundData()\<close> answer and \<open>decimals()\<close>, and the router.
  A router call that reverts is \<open>None\<close>; a successful \<open>swapExactTokensForTokens\<close> returns
  the chain as the swap leaves it.
\<close>

record 'x env =
  asset :: address
  weth :: address
  decimals :: "address \<Rightarrow> nat"
  latestAnswer :: "address \<Rightarrow> int"
  feedDecimals :: "address \<Rightarrow> nat"
  getAmountsOut :: "'x chain \<Rightarrow> uint256 \<Rightarrow> address list \<Rightarrow> uint256 list option"
  swapExactTokensForTokens ::
    "'x chain \<Rightarrow> uint256 \<Rightarrow> uint256 \<Rightarrow> address list \<Rightarrow> 'x chain option"

definition MAX_BPS :: uint256 where
  "MAX_BPS = 10000"

definition MAX_SLIPPAGE :: uint256 where
  "MAX_SLIPPAGE = 500"

definition MAX_ALLOCATIONS :: nat where
  "MAX_ALLOCATIONS = 10"

subsection \<open>Checked arithmetic\<close>

definition checked_add :: "uint256 \<Rightarrow> uint256 \<Rightarrow> error + uint256" where
  "checked_add a b = (if a + b < 2 ^ 256 then Inr (a + b) else Inl (Panic 17))"

definition checked_mul :: "uint256 \<Rightarrow> uint256 \<Rightarrow> error + uint256" where
  "checked_mul a b = (if a * b < 2 ^ 256 then Inr (a * b) else Inl (Panic 17))"

definition checked_pow :: "uint256 \<Rightarrow> nat \<Rightarrow> error + uint256" where
  "checked_pow a n = (if a ^ n < 2 ^ 256 then Inr (a ^ n) else Inl (Panic 17))"

section \<open>Valuation\<close>

text \<open>
  \<open>_getTokenValueInAsset\<close>: the value of \<open>tokenAmount\<close> of \<open>token\<close> in units of the base
  asset. \<open>scaled_mul_div a p q e\<close> is the last statement of the source, shared with
  \<open>_convertAssetValueToTokenAmount\<close>: \<open>(a * p * 10 ** e) / q\<close> when the signed exponent
  \<open>e\<close> is non-negative and \<open>(a * p) / (q * 10 ** (-e))\<close> otherwise, every product checked.
\<close>

definition scaled_mul_div :: "uint256 \<Rightarrow> uint256 \<Rightarrow> uint256 \<Rightarrow> int \<Rightarrow> error + uint256" where
  "scaled_mul_div a p q e =
     (if e \<ge> 0 then
        (case checked_mul a p of Inl err \<Rightarrow> Inl err | Inr ap \<Rightarrow>
         case checked_pow 10 (nat e) of Inl err \<Rightarrow> Inl err | Inr s \<Rightarrow>
         case checked_mul ap s of Inl err \<Rightarrow> Inl err | Inr n \<Rightarrow> Inr (n div q))
      else
        (case checked_mul a p of Inl err \<Rightarrow> Inl err | Inr ap \<Rightarrow>
         case checked_pow 10 (nat (- e)) of Inl err \<Rightarrow> Inl err | Inr s \<Rightarrow>
         case checked_mul q s of Inl err \<Rightarrow> Inl err | Inr d \<Rightarrow> Inr (ap div d)))"

definition getTokenValueInAsset ::
  "'x env \<Rightarrow> ('x, 's) state_scheme \<Rightarrow> address \<Rightarrow> uint256 \<Rightarrow> error + uint256" where
  "getTokenValueInAsset env st tok tokenAmount =
     (if tok = asset env then Inr tokenAmount
      else if tokenAmount = 0 then Inr 0
      else
        let tokenFeed = priceFeeds st tok; assetFeed = priceFeeds st (asset env) in
        if tokenFeed = 0 then Inl (Require ''AIBasketStrategy: no token feed'')
        else if assetFeed = 0 then Inl (Require ''AIBasketStrategy: no asset feed'')
        else
          let tokenPrice = latestAnswer env tokenFeed; assetPrice = latestAnswer env assetFeed in
          if \<not> (tokenPrice > 0 \<and> assetPrice > 0)
          then Inl (Require ''AIBasketStrategy: invalid price'')
          else
            let tokenDec = decimals env tok; assetDec = decimals env (asset env);
                feedDecToken = feedDecimals env tokenFeed;
                feedDecAsset = feedDecimals env assetFeed in
            if feedDecToken \<noteq> feedDecAsset
            then Inl (Require ''AIBasketStrategy: feed decimals mismatch'')
            else scaled_mul_div tokenAmount (nat tokenPrice) (nat assetPrice)
                   (int assetDec - int tokenDec))"

text \<open>\<open>_convertAssetValueToTokenAmount\<close>: the amount of \<open>token\<close> worth \<open>assetAmount\<close>.\<close>

definition convertAssetValueToTokenAmount ::
  "'x env \<Rightarrow> ('x, 's) state_scheme \<Rightarrow> address \<Rightarrow> uint256 \<Rightarrow> error + uint256" where
  "convertAssetValueToTokenAmount env st tok assetAmount =
     (if tok = asset env then Inr assetAmount
      else if assetAmount = 0 then Inr 0
      else
        let tokenFeed = priceFeeds st tok; assetFeed = priceFeeds st (asset env) in
        if tokenFeed = 0 then Inl (Require ''AIBasketStrategy: no token feed'')
        else if assetFeed = 0 then Inl (Require ''AIBasketStrategy: no asset feed'')
        else
          let tokenPrice = latestAnswer env tokenFeed; assetPrice = latestAnswer env assetFeed in
          if \<not> (tokenPrice > 0 \<and> assetPrice > 0)
          then Inl (Require ''AIBasketStrategy: invalid price'')
          else
            let tokenDec = decimals env tok; assetDec = decimals env (asset env);
                feedDecToken = feedDecimals env tokenFeed;
                feedDecAsset = feedDecimals env assetFeed in
            if feedDecToken \<noteq> feedDecAsset
            then Inl (Require ''AIBasketStrategy: feed decimals mismatch'')
            else scaled_mul_div assetAmount (nat assetPrice) (nat tokenPrice)
                   (int tokenDec - int assetDec))"

section \<open>Swap execution\<close>

text \<open>\<open>_buildPath\<close>: direct when the tokens are equal or one side is WETH, else through WETH.\<close>

definition buildPath :: "'x env \<Rightarrow> address \<Rightarrow> address \<Rightarrow> address list" where
  "buildPath env from to =
     (if from = to then [from]
      else if from = weth env \<or> to = weth env then [from, to]
      else [from, weth env, to])"

text \<open>
  \<open>_swapToken\<close>. The quote is a \<open>try\<close>: a reverting \<open>getAmountsOut\<close> ends the function
  without effect. \<open>amountsOut[amountsOut.length - 1]\<close> panics on an empty array (the
  subtraction underflows). \<open>forceApprove\<close> sets the router's allowance. The execution is a
  \<open>try\<close> too: a reverting swap changes nothing on the chain, and the \<open>catch\<close> sets the
  allowance back to zero.
\<close>

definition swapToken ::
  "'x env \<Rightarrow> address \<Rightarrow> address \<Rightarrow> uint256 \<Rightarrow> 'x state \<Rightarrow> error + 'x state" where
  "swapToken env fromToken toToken amount st =
     (if fromToken = toToken \<or> amount = 0 then Inr st
      else
        let path = buildPath env fromToken toToken;
            st0 = st\<lparr>routerCalls := routerCalls st @ [GetAmountsOut amount path]\<rparr> in
        case getAmountsOut env (chain st) amount path of
          None \<Rightarrow> Inr st0
        | Some amountsOut \<Rightarrow>
            if amountsOut = [] then Inl (Panic 17)
            else
              case checked_mul (last amountsOut) (MAX_BPS - MAX_SLIPPAGE) of
                Inl err \<Rightarrow> Inl err
              | Inr scaled \<Rightarrow>
                  let amountOutMin = scaled div MAX_BPS;
                      approved = (chain st)\<lparr>allowance := (allowance (chain st))(fromToken := amount)\<rparr>;
                      st1 = st0\<lparr>chain := approved,
                               routerCalls := routerCalls st0 @
                                 [SwapExactTokensForTokens amount amountOutMin path]\<rparr> in
                  case swapExactTokensForTokens env approved amount amountOutMin path of
                    Some c \<Rightarrow> Inr (st1\<lparr>chain := c\<rparr>)
                  | None \<Rightarrow>
                      Inr (st1\<lparr>chain := approved\<lparr>allowance := (allowance approved)(fromToken := 0)\<rparr>\<rparr>))"

section \<open>Portfolio accessor\<close>

text \<open>
  \<open>totalAssets\<close>: the loop over \<open>allocations\<close> with the running \<open>totalValue\<close>, which starts
  at the strategy's balance of the base asset.
\<close>

fun totalAssets_loop ::
  "'x env \<Rightarrow> ('x, 's) state_scheme \<Rightarrow> TokenAllocation list \<Rightarrow> uint256 \<Rightarrow> error + uint256" where
  "totalAssets_loop env st [] totalValue = Inr totalValue"
| "totalAssets_loop env st (a # rest) totalValue =
     (if token a \<noteq> asset env then
        (let tokenBalance = balanceOf (chain st) (token a) in
         if tokenBalance > 0 then
           (case getTokenValueInAsset env st (token a) tokenBalance of
              Inl err \<Rightarrow> Inl err
            | Inr v \<Rightarrow>
                (case checked_add totalValue v of
                   Inl err \<Rightarrow> Inl err
                 | Inr totalValue' \<Rightarrow> totalAssets_loop env st rest totalValue'))
         else totalAssets_loop env st rest totalValue)
      else totalAssets_loop env st rest totalValue)"

definition totalAssets :: "'x env \<Rightarrow> ('x, 's) state_scheme \<Rightarrow> error + uint256" where
  "totalAssets env st =
     totalAssets_loop env st (allocations st) (balanceOf (chain st) (asset env))"

section \<open>Rebalancer\<close>

text \<open>
  \<open>currentValueOf\<close> is the \<open>if\<close>/\<open>else\<close> of the loop body that sets \<open>currentValue\<close>: the
  balance itself for the base asset, the converted balance for another token, and 0
  without any conversion when the balance is 0.
\<close>

definition currentValueOf ::
  "'x env \<Rightarrow> ('x, 's) state_scheme \<Rightarrow> address \<Rightarrow> error + uint256" where
  "currentValueOf env st tok =
     (if tok = asset env then Inr (balanceOf (chain st) (asset env))
      else
        let tokenBalance = balanceOf (chain st) tok in
        if tokenBalance > 0 then getTokenValueInAsset env st tok tokenBalance else Inr 0)"

text \<open>
  The body of the loop of \<open>_rebalancePortfolio\<close> for one allocation. \<open>totalValue\<close> is the
  value computed before the loop; balances are read from the current state. The loop
  runs over the allocations in storage order; no step writes to \<open>allocations\<close>
  (lemma \<open>swapToken_allocations\<close>), so the list is the one read before the loop.
\<close>

definition rebalance_step ::
  "'x env \<Rightarrow> uint256 \<Rightarrow> TokenAllocation \<Rightarrow> 'x state \<Rightarrow> error + 'x state" where
  "rebalance_step env totalValue a st =
     (case checked_mul totalValue (percentage a) of
        Inl err \<Rightarrow> Inl err
      | Inr scaled \<Rightarrow>
          let targetValue = scaled div MAX_BPS in
          case currentValueOf env st (token a) of
            Inl err \<Rightarrow> Inl err
          | Inr currentValue \<Rightarrow>
              let threshold = totalValue div 100 in
              case checked_add currentValue threshold of
                Inl err \<Rightarrow> Inl err
              | Inr low \<Rightarrow>
                  if low < targetValue then
                    (let amountToBuy = targetValue - currentValue in
                     swapToken env (asset env) (token a) amountToBuy st)
                  else
                    case checked_add targetValue threshold of
                      Inl err \<Rightarrow> Inl err
                    | Inr high \<Rightarrow>
                        if currentValue > high then
                          (let amountToSell = currentValue - targetValue in
                           if token a \<noteq> asset env then
                             (case convertAssetValueToTokenAmount env st (token a) amountToSell of
                                Inl err \<Rightarrow> Inl err
                              | Inr tokenAmountToSell \<Rightarrow>
                                  let actualBalance = balanceOf (chain st) (token a) in
                                  swapToken env (token a) (asset env)
                                    (if tokenAmountToSell > actualBalance then actualBalance
                                     else tokenAmountToSell) st)
                           else Inr st)
                        else Inr st)"

fun rebalance_loop ::
  "'x env \<Rightarrow> uint256 \<Rightarrow> TokenAllocation list \<Rightarrow> 'x state \<Rightarrow> error + 'x state" where
  "rebalance_loop env totalValue [] st = Inr st"
| "rebalance_loop env totalValue (a # rest) st =
     (case rebalance_step env totalValue a st of
        Inl err \<Rightarrow> Inl err
      | Inr st' \<Rightarrow> rebalance_loop env totalValue rest st')"

definition rebalancePortfolio :: "'x env \<Rightarrow> 'x state \<Rightarrow> error + 'x state" where
  "rebalancePortfolio env st =
     (if length (allocations st) = 0 then Inr st
      else
        case totalAssets env st of
          Inl err \<Rightarrow> Inl err
        | Inr totalValue \<Rightarrow>
            if totalValue = 0 then Inr st
            else rebalance_loop env totalValue (allocations st) st)"

section \<open>Liquidator\<close>

definition liquidate_step ::
  "'x env \<Rightarrow> uint256 \<Rightarrow> uint256 \<Rightarrow> TokenAllocation \<Rightarrow> 'x state \<Rightarrow> error + 'x state" where
  "liquidate_step env neededAmount totalValue a st =
     (if token a = asset env then Inr st
      else
        let tokenBalance = balanceOf (chain st) (token a) in
        if tokenBalance = 0 then Inr st
        else
          case getTokenValueInAsset env st (token a) tokenBalance of
            Inl err \<Rightarrow> Inl err
          | Inr tokenValue \<Rightarrow>
              case checked_mul tokenValue neededAmount of
                Inl err \<Rightarrow> Inl err
              | Inr scaled \<Rightarrow>
                  let liquidateValue = scaled div totalValue in
                  if liquidateValue > 0 then
                    (case convertAssetValueToTokenAmount env st (token a) liquidateValue of
                       Inl err \<Rightarrow> Inl err
                     | Inr liquidateAmount \<Rightarrow>
                         swapToken env (token a) (asset env)
                           (if liquidateAmount > tokenBalance then tokenBalance
                            else liquidateAmount) st)
                  else Inr st)"

fun liquidate_loop ::
  "'x env \<Rightarrow> uint256 \<Rightarrow> uint256 \<Rightarrow> TokenAllocation list \<Rightarrow> 'x state \<Rightarrow> error + 'x state" where
  "liquidate_loop env neededAmount totalValue [] st = Inr st"
| "liquidate_loop env neededAmount totalValue (a # rest) st =
     (case liquidate_step env neededAmount totalValue a st of
        Inl err \<Rightarrow> Inl err
      | Inr st' \<Rightarrow> liquidate_loop env neededAmount totalValue rest st')"

definition liquidateForWithdrawal :: "'x env \<Rightarrow> uint256 \<Rightarrow> 'x state \<Rightarrow> error + 'x state" where
  "liquidateForWithdrawal env neededAmount st =
     (if length (allocations st) = 0 then Inr st
      else
        case totalAssets env st of
          Inl err \<Rightarrow> Inl err
        | Inr totalValue \<Rightarrow>
            if totalValue = 0 then Inr st
            else liquidate_loop env neededAmount totalValue (allocations st) st)"

section \<open>Allocation registry\<close>

text \<open>
  The loop of \<open>setAllocations\<close>: the four \<open>require\<close>s in the order of the source, the
  \<open>push\<close>, the checked running sum and the \<open>AllocationUpdated\<close> event.
\<close>

fun setAllocations_loop ::
  "'x state \<Rightarrow> TokenAllocation list \<Rightarrow> uint256 \<Rightarrow> error + ('x state \<times> uint256)" where
  "setAllocations_loop st [] totalPercentage = Inr (st, totalPercentage)"
| "setAllocations_loop st (a # rest) totalPercentage =
     (if token a = 0 then Inl (Require ''AIBasketStrategy: zero token'')
      else if \<not> allowedTokens st (token a)
      then Inl (Require ''AIBasketStrategy: token not allowed'')
      else if \<not> percentage a > 0 then Inl (Require ''AIBasketStrategy: zero percentage'')
      else if priceFeeds st (token a) = 0 then Inl (Require ''AIBasketStrategy: no price feed'')
      else
        case checked_add totalPercentage (percentage a) of
          Inl err \<Rightarrow> Inl err
        | Inr totalPercentage' \<Rightarrow>
            setAllocations_loop
              (st\<lparr>allocations := allocations st @ [a],
                  events := events st @ [AllocationUpdated (token a) (percentage a)]\<rparr>)
              rest totalPercentage')"

definition setAllocations ::
  "'x env \<Rightarrow> TokenAllocation list \<Rightarrow> 'x state \<Rightarrow> error + 'x state" where
  "setAllocations env newAllocations st =
     (if \<not> length newAllocations \<le> MAX_ALLOCATIONS
      then Inl (Require ''AIBasketStrategy: too many allocations'')
      else
        case setAllocations_loop (st\<lparr>allocations := []\<rparr>) newAllocations 0 of
          Inl err \<Rightarrow> Inl err
        | Inr (st1, totalPercentage) \<Rightarrow>
            if \<not> totalPercentage \<le> MAX_BPS
            then Inl (Require ''AIBasketStrategy: total percentage exceeds 100%'')
            else
              case (if balanceOf (chain st1) (asset env) > 0 then rebalancePortfolio env st1
                    else Inr st1) of
                Inl err \<Rightarrow> Inl err
              | Inr st2 \<Rightarrow>
                  (case totalAssets env st2 of
                     Inl err \<Rightarrow> Inl err
                   | Inr totalValue \<Rightarrow>
                       Inr (st2\<lparr>events := events st2 @
                              [AIRebalance totalValue (length (allocations st2))]\<rparr>)))"

text \<open>
  A transaction that reverts leaves the state as it was before the call: \<open>after_call st r\<close>
  is the state after a call from \<open>st\<close> with result \<open>r\<close>.
\<close>

definition after_call :: "'x state \<Rightarrow> error + 'x state \<Rightarrow> 'x state" where
  "after_call st r = (case r of Inl err \<Rightarrow> st | Inr st' \<Rightarrow> st')"

section \<open>Emergency exit\<close>

text \<open>
  \<open>emergencyExitAllPositions\<close>: for every listed token other than the base asset with a
  non-zero balance, the swap of the whole balance into the base asset, followed by the
  \<open>EmergencyExit\<close> event; then \<open>delete allocations\<close>.
\<close>

fun emergencyExit_loop ::
  "'x env \<Rightarrow> TokenAllocation list \<Rightarrow> 'x state \<Rightarrow> error + 'x state" where
  "emergencyExit_loop env [] st = Inr st"
| "emergencyExit_loop env (a # rest) st =
     (if token a = asset env then emergencyExit_loop env rest st
      else
        let balance = balanceOf (chain st) (token a) in
        if balance > 0 then
          (case swapToken env (token a) (asset env) balance st of
             Inl err \<Rightarrow> Inl err
           | Inr st' \<Rightarrow>
               emergencyExit_loop env rest
                 (st'\<lparr>events := events st' @ [EmergencyExit (token a) balance]\<rparr>))
        else emergencyExit_loop env rest st)"

definition emergencyExitAllPositions :: "'x env \<Rightarrow> 'x state \<Rightarrow> error + 'x state" where
  "emergencyExitAllPositions env st =
     (case emergencyExit_loop env (allocations st) st of
        Inl err \<Rightarrow> Inl err
      | Inr st' \<Rightarrow> Inr (st'\<lparr>allocations := []\<rparr>))"

section \<open>Example portfolios\<close>

text \<open>
  A small concrete setting for evaluating the functions: base asset 1, WETH 2, tokens 3
  and 4 with weights 6000 and 4000 basis points, all prices 1 with equal decimals, and an
  exchange that quotes and trades one for one, and reverts when the balance or the
  allowance does not cover the amount. \<open>example_state base a b\<close> holds \<open>base\<close> of the base
  asset, \<open>a\<close> of token 3 and \<open>b\<close> of token 4.
\<close>

definition exchange_1to1 ::
  "unit chain \<Rightarrow> uint256 \<Rightarrow> uint256 \<Rightarrow> address list \<Rightarrow> unit chain option" where
  "exchange_1to1 c amount amountOutMin path =
     (if amount \<le> balanceOf c (hd path) \<and> amount \<le> allowance c (hd path) \<and> amountOutMin \<le> amount
      then Some (c\<lparr>balanceOf := (balanceOf c)(hd path := balanceOf c (hd path) - amount,
                                             last path := balanceOf c (last path) + amount),
                   allowance := (allowance c)(hd path := allowance c (hd path) - amount)\<rparr>)
      else None)"

definition example_env :: "unit env" where
  "example_env = \<lparr>asset = 1, weth = 2, decimals = (\<lambda>_. 6), latestAnswer = (\<lambda>_. 1),
           feedDecimals = (\<lambda>_. 8),
           getAmountsOut = (\<lambda>c amount path. Some (replicate (length path) amount)),
           swapExactTokensForTokens = exchange_1to1\<rparr>"

definition example_state :: "uint256 \<Rightarrow> uint256 \<Rightarrow> uint256 \<Rightarrow> unit state" where
  "example_state base a b =
     \<lparr>allocations = [\<lparr>token = 3, percentage = 6000\<rparr>, \<lparr>token = 4, percentage = 4000\<rparr>],
      allowedTokens = (\<lambda>t. t = 1 \<or> t = 3 \<or> t = 4),
      priceFeeds = (\<lambda>t. if t = 1 \<or> t = 3 \<or> t = 4 then t + 16 else 0),
      chain = \<lparr>balanceOf = (\<lambda>t. if t = 1 then base else if t = 3 then a else if t = 4 then b else 0),
               allowance = (\<lambda>_. 0), pools = ()\<rparr>,
      routerCalls = [], events = []\<rparr>"

text \<open>The same setting with an exchange whose execution call always reverts.\<close>

definition failing_exchange_env :: "unit env" where
  "failing_exchange_env =
     example_env\<lparr>swapExactTokensForTokens := (\<lambda>c amount amountOutMin path. None)\<rparr>"

text \<open>The same setting with an exchange whose quote always reverts.\<close>

definition no_quote_env :: "unit env" where
  "no_quote_env = example_env\<lparr>getAmountsOut := (\<lambda>c amount path. None)\<rparr>"

text \<open>The same setting where the feed of token 3 (feed 19) answers 0.\<close>

definition zero_price_env :: "unit env" where
  "zero_price_env = example_env\<lparr>latestAnswer := (\<lambda>feed. if feed = 19 then 0 else 1)\<rparr>"

text \<open>A state whose allocations list only token 3, while token 4 is held as well.\<close>

definition unlisted_state :: "uint256 \<Rightarrow> uint256 \<Rightarrow> uint256 \<Rightarrow> unit state" where
  "unlisted_state base a b =
     (example_state base a b)\<lparr>allocations := [\<lparr>token = 3, percentage = 10000\<rparr>]\<rparr>"

text \<open>The same setting where token 3 is worth 1000 times the base asset.\<close>

definition priced_env :: "unit env" where
  "priced_env = example_env\<lparr>latestAnswer := (\<lambda>feed. if feed = 19 then 1000 else 1)\<rparr>"

text \<open>The same setting where the feed of token 3 reports 18 decimals and the others 8.\<close>

definition mismatch_env :: "unit env" where
  "mismatch_env = example_env\<lparr>feedDecimals := (\<lambda>feed. if feed = 19 then 18 else 8)\<rparr>"

text \<open>
  The same setting with an exchange that quotes one for one but delivers only \<open>delivered\<close>
  units at execution, and reverts when that is less than the minimum output asked for.
\<close>

definition slipping_exchange ::
  "uint256 \<Rightarrow> unit chain \<Rightarrow> uint256 \<Rightarrow> uint256 \<Rightarrow> address list \<Rightarrow> unit chain option" where
  "slipping_exchange delivered c amount amountOutMin path =
     (if amount \<le> balanceOf c (hd path) \<and> amount \<le> allowance c (hd path) \<and>
         amountOutMin \<le> delivered
      then Some (c\<lparr>balanceOf := (balanceOf c)(hd path := balanceOf c (hd path) - amount,
                                             last path := balanceOf c (last path) + delivered),
                   allowance := (allowance c)(hd path := allowance c (hd path) - amount)\<rparr>)
      else None)"

definition slipping_env :: "uint256 \<Rightarrow> unit env" where
  "slipping_env delivered =
     example_env\<lparr>swapExactTokensForTokens := slipping_exchange delivered\<rparr>"

section \<open>Predicates used in the statements\<close>

text \<open>
  The errors \<open>setAllocations\<close> can raise while it validates its argument: its six
  \<open>require\<close> messages, and the arithmetic panic of the checked running sum of the weights.
\<close>

definition setAllocations_errors :: "error list" where
  "setAllocations_errors =
     [Require ''AIBasketStrategy: too many allocations'',
      Require ''AIBasketStrategy: zero token'',
      Require ''AIBasketStrategy: token not allowed'',
      Require ''AIBasketStrategy: zero percentage'',
      Require ''AIBasketStrategy: no price feed'',
      Require ''AIBasketStrategy: total percentage exceeds 100%'',
      Panic 17]"

text \<open>
  A list that \<open>setAllocations\<close> must reject: too long, or with an entry that has the zero
  token, a token that is not allowed, a zero weight or a token without a price feed, or
  with weights that sum to more than 10000.
\<close>

definition invalid_allocations :: "'x state \<Rightarrow> TokenAllocation list \<Rightarrow> bool" where
  "invalid_allocations st newAllocations \<longleftrightarrow>
     length newAllocations > 10 \<or>
     (\<exists>a \<in> set newAllocations.
        token a = 0 \<or> \<not> allowedTokens st (token a) \<or> percentage a = 0 \<or>
        priceFeeds st (token a) = 0) \<or>
     sum_list (map percentage newAllocations) > 10000"

text \<open>
  An allocation is within the threshold when the loop body of \<open>_rebalancePortfolio\<close>
  computes its target and current values without a revert and takes neither the buy
  branch (\<open>currentValue + threshold < targetValue\<close>) nor the sell branch
  (\<open>currentValue > targetValue + threshold\<close>).
\<close>

definition within_threshold ::
  "'x env \<Rightarrow> 'x state \<Rightarrow> uint256 \<Rightarrow> TokenAllocation \<Rightarrow> bool" where
  "within_threshold env st totalValue a =
     (case currentValueOf env st (token a) of
        Inl err \<Rightarrow> False
      | Inr currentValue \<Rightarrow>
          let targetValue = totalValue * percentage a div 10000;
              threshold = totalValue div 100 in
          totalValue * percentage a < 2 ^ 256 \<and>
          currentValue + threshold < 2 ^ 256 \<and> targetValue + threshold < 2 ^ 256 \<and>
          \<not> currentValue + threshold < targetValue \<and>
          \<not> currentValue > targetValue + threshold)"

section \<open>The passes in the words of the specification\<close>

text \<open>
  The rebalance decision as the specification words it, for a total value, a weight in
  basis points and the current value of the holding: the target value is
  \<open>TotalValue * weightBps / 10000\<close>, the threshold is one hundredth of the total value; an
  underweight token is bought for the deficit, an overweight token is sold for the
  excess, anything else is left alone.
\<close>

datatype decision = Buy uint256 | Sell uint256 | Hold

definition target_value :: "uint256 \<Rightarrow> uint256 \<Rightarrow> uint256" where
  "target_value totalValue weightBps = totalValue * weightBps div 10000"

definition rebalance_threshold :: "uint256 \<Rightarrow> uint256" where
  "rebalance_threshold totalValue = totalValue div 100"

definition decide :: "uint256 \<Rightarrow> uint256 \<Rightarrow> uint256 \<Rightarrow> decision" where
  "decide totalValue weightBps currentValue =
     (if currentValue + rebalance_threshold totalValue < target_value totalValue weightBps
      then Buy (target_value totalValue weightBps - currentValue)
      else if currentValue > target_value totalValue weightBps + rebalance_threshold totalValue
      then Sell (currentValue - target_value totalValue weightBps)
      else Hold)"

text \<open>
  Carrying out a decision through the swap adapter: a buy swaps that amount of base asset
  into the token; a sell converts the excess value into a token amount with \<open>amountOf\<close>,
  caps it at the holding and swaps it into the base asset.
\<close>

definition execute_decision ::
  "'x env \<Rightarrow> address \<Rightarrow> decision \<Rightarrow> 'x state \<Rightarrow> error + 'x state" where
  "execute_decision env tok d st =
     (case d of
        Buy amountToBuy \<Rightarrow> swapToken env (asset env) tok amountToBuy st
      | Sell amountToSell \<Rightarrow>
          (case convertAssetValueToTokenAmount env st tok amountToSell of
             Inl err \<Rightarrow> Inl err
           | Inr tokenAmount \<Rightarrow>
               swapToken env tok (asset env) (min tokenAmount (balanceOf (chain st) tok)) st)
      | Hold \<Rightarrow> Inr st)"

text \<open>
  One allocation of the specification's pass: the current value is \<open>valueOf\<close> of the holding
  (the holding itself for the base asset), then the decision is carried out. The products
  and sums that the decision needs must fit in 256 bits; otherwise the step fails as the
  checked arithmetic of the contract does. The pass takes the allocations in registry
  order, each from the state the previous one left, and stops at the first failure.
\<close>

definition spec_rebalance_step ::
  "'x env \<Rightarrow> uint256 \<Rightarrow> TokenAllocation \<Rightarrow> 'x state \<Rightarrow> error + 'x state" where
  "spec_rebalance_step env totalValue a st =
     (if \<not> totalValue * percentage a < 2 ^ 256 then Inl (Panic 17)
      else
        case getTokenValueInAsset env st (token a) (balanceOf (chain st) (token a)) of
          Inl err \<Rightarrow> Inl err
        | Inr currentValue \<Rightarrow>
            if \<not> currentValue + rebalance_threshold totalValue < 2 ^ 256 then Inl (Panic 17)
            else if \<not> currentValue + rebalance_threshold totalValue
                        < target_value totalValue (percentage a) \<and>
                    \<not> target_value totalValue (percentage a) + rebalance_threshold totalValue
                        < 2 ^ 256
            then Inl (Panic 17)
            else execute_decision env (token a) (decide totalValue (percentage a) currentValue) st)"

definition spec_rebalance_pass ::
  "'x env \<Rightarrow> uint256 \<Rightarrow> TokenAllocation list \<Rightarrow> 'x state \<Rightarrow> error + 'x state" where
  "spec_rebalance_pass env totalValue allocs st =
     foldl (\<lambda>r a. case r of Inl err \<Rightarrow> Inl err
                    | Inr st' \<Rightarrow> spec_rebalance_step env totalValue a st')
       (Inr st) allocs"





section \<open>Evaluation on the examples\<close>

text \<open>The defining equations needed to evaluate the functions on the example portfolios.\<close>

lemmas example_simps =
  example_env_def example_state_def unlisted_state_def exchange_1to1_def
  totalAssets_def getTokenValueInAsset_def convertAssetValueToTokenAmount_def
  scaled_mul_div_def checked_mul_def checked_pow_def checked_add_def
  swapToken_def buildPath_def MAX_BPS_def MAX_SLIPPAGE_def Let_def

section \<open>Allocation registry: rejected lists\<close>

text \<open>
  When the validation loop succeeds, every entry passed the four checks, the running sum
  is the sum of the weights, and the entries were appended in order, with one
  \<open>AllocationUpdated\<close> event each.
\<close>

lemma setAllocations_loop_Inr:
  "setAllocations_loop st nl tp = Inr (st', tp') \<Longrightarrow>
     tp' = tp + sum_list (map percentage nl) \<and>
     (\<forall>a \<in> set nl. token a \<noteq> 0 \<and> allowedTokens st (token a) \<and> percentage a \<noteq> 0 \<and>
        priceFeeds st (token a) \<noteq> 0) \<and>
     st' = st\<lparr>allocations := allocations st @ nl,
              events := events st @ map (\<lambda>a. AllocationUpdated (token a) (percentage a)) nl\<rparr>"
proof (induction nl arbitrary: st tp)
  case Nil
  then show ?case by simp
next
  case (Cons a nl)
  from Cons.prems obtain tp1 where
    ok: "token a \<noteq> 0" "allowedTokens st (token a)" "percentage a \<noteq> 0"
        "priceFeeds st (token a) \<noteq> 0"
    and add: "checked_add tp (percentage a) = Inr tp1"
    and rest: "setAllocations_loop
                 (st\<lparr>allocations := allocations st @ [a],
                     events := events st @ [AllocationUpdated (token a) (percentage a)]\<rparr>)
                 nl tp1 = Inr (st', tp')"
    by (auto split: if_splits sum.splits)
  from add have tp1: "tp1 = tp + percentage a"
    by (auto simp: checked_add_def split: if_splits)
  from Cons.IH[OF rest] ok tp1 show ?case by simp
qed

lemma setAllocations_loop_Inl:
  "setAllocations_loop st nl tp = Inl e \<Longrightarrow> e \<in> set setAllocations_errors"
proof (induction nl arbitrary: st tp)
  case Nil
  then show ?case by simp
next
  case (Cons a nl)
  then show ?case
    by (auto simp: setAllocations_errors_def checked_add_def split: if_splits sum.splits)
qed

text \<open>
  Claim C3. \<open>setAllocations\<close> reverts on every list that is longer than 10, or contains the
  zero token, a token that is not allowed, a zero weight or a token without a price feed,
  or whose weights sum to more than 10000. The revert is one of the validation errors of
  \<open>setAllocations_errors\<close>, and the state after the call is the state before it: the
  \<open>delete allocations\<close> that precedes the checks is undone by the revert.
\<close>

theorem setAllocations_rejects_invalid:
  assumes "invalid_allocations st newAllocations"
  shows "(\<exists>e \<in> set setAllocations_errors. setAllocations env newAllocations st = Inl e) \<and>
         after_call st (setAllocations env newAllocations st) = st"
proof -
  have "\<exists>e \<in> set setAllocations_errors. setAllocations env newAllocations st = Inl e"
  proof (cases "length newAllocations \<le> MAX_ALLOCATIONS")
    case False
    then show ?thesis by (simp add: setAllocations_def setAllocations_errors_def)
  next
    case len: True
    show ?thesis
    proof (cases "setAllocations_loop (st\<lparr>allocations := []\<rparr>) newAllocations 0")
      case (Inl e)
      with len setAllocations_loop_Inl[OF Inl] show ?thesis
        by (simp add: setAllocations_def)
    next
      case (Inr r)
      obtain st1 tp where r: "r = (st1, tp)" by (cases r)
      from setAllocations_loop_Inr[OF Inr[unfolded r]]
      have tp: "tp = sum_list (map percentage newAllocations)"
        and ok: "\<forall>a \<in> set newAllocations. token a \<noteq> 0 \<and> allowedTokens st (token a) \<and>
                   percentage a \<noteq> 0 \<and> priceFeeds st (token a) \<noteq> 0"
        by simp_all
      from assms len ok have "sum_list (map percentage newAllocations) > 10000"
        by (auto simp: invalid_allocations_def MAX_ALLOCATIONS_def)
      with tp len Inr r show ?thesis
        by (simp add: setAllocations_def setAllocations_errors_def MAX_BPS_def)
    qed
  qed
  then show ?thesis by (auto simp: after_call_def)
qed

theorem setAllocations_rejects_invalid_witness:
  "invalid_allocations (example_state 100 0 0)
     [\<lparr>token = 3, percentage = 5000\<rparr>, \<lparr>token = 4, percentage = 6000\<rparr>] \<and>
   setAllocations example_env [\<lparr>token = 3, percentage = 5000\<rparr>, \<lparr>token = 4, percentage = 6000\<rparr>]
     (example_state 100 0 0) = Inl (Require ''AIBasketStrategy: total percentage exceeds 100%'') \<and>
   after_call (example_state 100 0 0)
     (setAllocations example_env [\<lparr>token = 3, percentage = 5000\<rparr>, \<lparr>token = 4, percentage = 6000\<rparr>]
        (example_state 100 0 0)) = example_state 100 0 0"
proof -
  have inv: "invalid_allocations (example_state 100 0 0)
     [\<lparr>token = 3, percentage = 5000\<rparr>, \<lparr>token = 4, percentage = 6000\<rparr>]"
    by (simp add: invalid_allocations_def example_state_def)
  have ev: "setAllocations example_env [\<lparr>token = 3, percentage = 5000\<rparr>, \<lparr>token = 4, percentage = 6000\<rparr>]
     (example_state 100 0 0) = Inl (Require ''AIBasketStrategy: total percentage exceeds 100%'')"
    by (simp add: setAllocations_def example_state_def example_env_def checked_add_def
          MAX_ALLOCATIONS_def MAX_BPS_def)
  from setAllocations_rejects_invalid [OF inv, of example_env] inv ev show ?thesis by simp
qed

section \<open>Valuation: round trip and mismatched feed decimals\<close>

text \<open>
  Converting down and back with truncating division: with \<open>a = v * N div D\<close> and
  \<open>r = a * D div N\<close>, the result \<open>r\<close> never exceeds \<open>v\<close> and falls short of it by less than
  \<open>D / N + 1\<close>.
\<close>

lemma roundtrip_floor:
  fixes v N D :: nat
  assumes "0 < N" and "0 < D"
  shows "(v * N div D) * D div N \<le> v"
    and "N * (v - (v * N div D) * D div N) < D + N"
proof -
  let ?a = "v * N div D"
  let ?r = "?a * D div N"
  have aD: "?a * D \<le> v * N" by simp
  then have "?r \<le> v * N div N" by (rule div_le_mono)
  with assms(1) show r: "?r \<le> v" by simp
  from dividend_less_div_times[OF assms(2), of "v * N"]
  have 1: "v * N < D + ?a * D" .
  from dividend_less_div_times[OF assms(1), of "?a * D"]
  have 2: "?a * D < N + ?r * N" .
  from 1 2 have "N * v < D + N + N * ?r" by (simp add: mult.commute)
  with assms(1) have "N * v - N * ?r < D + N" by linarith
  then show "N * (v - ?r) < D + N" by (simp add: diff_mult_distrib2)
qed

text \<open>When the scaled multiply-and-divide returns, and what it returns.\<close>

lemma scaled_mul_div_Inr:
  "scaled_mul_div a p q e = Inr x \<longleftrightarrow>
     (if e \<ge> 0
      then a * p < 2 ^ 256 \<and> (10::nat) ^ nat e < 2 ^ 256 \<and> a * p * 10 ^ nat e < 2 ^ 256 \<and>
           x = a * p * 10 ^ nat e div q
      else a * p < 2 ^ 256 \<and> (10::nat) ^ nat (- e) < 2 ^ 256 \<and> q * 10 ^ nat (- e) < 2 ^ 256 \<and>
           x = a * p div (q * 10 ^ nat (- e)))"
  by (auto simp: scaled_mul_div_def checked_mul_def checked_pow_def)

text \<open>
  The round trip on the arithmetic of the two conversions, for a token with \<open>td\<close> decimals
  and a base asset with \<open>ad\<close> decimals: if the conversion of \<open>v\<close> into a token amount does
  not overflow, neither does the conversion back.
\<close>

lemma scaled_roundtrip:
  fixes td ad :: nat
  assumes pa: "0 < pa" and pt: "0 < pt" and v: "0 < v"
    and conv: "scaled_mul_div v pa pt (int td - int ad) = Inr a"
  shows "\<exists>r. scaled_mul_div a pt pa (int ad - int td) = Inr r \<and> r \<le> v \<and>
              pa * 10 ^ td * (v - r) < pt * 10 ^ ad + pa * 10 ^ td"
proof (cases "ad \<le> td")
  case True
  define k where "k = td - ad"
  have e: "int td - int ad = int k" using True by (simp add: k_def)
  have td: "td = k + ad" using True by (simp add: k_def)
  from conv[unfolded e scaled_mul_div_Inr]
  have b: "v * pa * 10 ^ k < 2 ^ 256" and p: "(10::nat) ^ k < 2 ^ 256"
    and a: "a = v * pa * 10 ^ k div pt" by simp_all
  let ?N = "pa * 10 ^ k"
  have N: "0 < ?N" using pa by simp
  have a': "a = v * ?N div pt" using a by (simp add: mult.assoc)
  define r where "r = a * pt div ?N"
  from roundtrip_floor[OF N pt, of v]
  have rv: "r \<le> v" and bound: "?N * (v - r) < pt + ?N"
    by (simp_all add: r_def a')
  have vN: "v * ?N < 2 ^ 256" using b by (simp add: mult.assoc)
  have apt: "a * pt \<le> v * ?N" unfolding a' by simp
  from apt vN have apt_b: "a * pt < 2 ^ 256" by (rule le_less_trans)
  have "?N \<le> v * ?N" using v by simp
  from this vN have N_b: "?N < 2 ^ 256" by (rule le_less_trans)
  have val: "scaled_mul_div a pt pa (int ad - int td) = Inr r"
  proof (cases "k = 0")
    case True
    then have "int ad - int td = 0" using e by simp
    with apt_b True show ?thesis
      by (simp add: scaled_mul_div_Inr r_def)
  next
    case False
    then have "int ad - int td = - int k" "\<not> 0 \<le> - int k" using e by simp_all
    with apt_b p N_b show ?thesis
      by (simp add: scaled_mul_div_Inr r_def)
  qed
  have "pa * 10 ^ td * (v - r) = 10 ^ ad * (?N * (v - r))"
    by (simp add: td power_add mult_ac)
  also have "\<dots> < 10 ^ ad * (pt + ?N)" using bound by simp
  also have "\<dots> = pt * 10 ^ ad + pa * 10 ^ td"
    by (simp add: td power_add algebra_simps)
  finally show ?thesis using val rv by blast
next
  case False
  define k where "k = ad - td"
  have k: "0 < k" using False by (simp add: k_def)
  have e: "int td - int ad = - int k" using False by (simp add: k_def)
  have ad: "ad = k + td" using False by (simp add: k_def)
  have neg: "\<not> 0 \<le> - int k" using k by simp
  from conv[unfolded e scaled_mul_div_Inr] neg
  have b: "v * pa < 2 ^ 256" and p: "(10::nat) ^ k < 2 ^ 256"
    and a: "a = v * pa div (pt * 10 ^ k)" by simp_all
  let ?D = "pt * 10 ^ k"
  have D: "0 < ?D" using pt by simp
  define r where "r = a * ?D div pa"
  from roundtrip_floor[OF pa D, of v]
  have rv: "r \<le> v" and bound: "pa * (v - r) < ?D + pa"
    by (simp_all add: r_def a)
  have aD: "a * ?D \<le> v * pa" unfolding a by simp
  from aD b have "a * ?D < 2 ^ 256" by (rule le_less_trans)
  then have aD_b: "a * pt * 10 ^ k < 2 ^ 256" by (simp add: mult.assoc)
  have "a * pt \<le> a * pt * 10 ^ k" by simp
  from this aD_b have apt_b: "a * pt < 2 ^ 256" by (rule le_less_trans)
  have "int ad - int td = int k" using False by (simp add: k_def)
  with apt_b p aD_b have val: "scaled_mul_div a pt pa (int ad - int td) = Inr r"
    by (simp add: scaled_mul_div_Inr r_def mult.assoc)
  have "pa * 10 ^ td * (v - r) = 10 ^ td * (pa * (v - r))"
    by (simp add: mult_ac)
  also have "\<dots> < 10 ^ td * (?D + pa)" using bound by simp
  also have "\<dots> = pt * 10 ^ ad + pa * 10 ^ td"
    by (simp add: ad power_add algebra_simps)
  finally show ?thesis using val rv by blast
qed

lemma convertAssetValueToTokenAmount_scaled:
  assumes "tok \<noteq> asset env" and "v \<noteq> 0"
    and "convertAssetValueToTokenAmount env st tok v = Inr a"
  shows "0 < latestAnswer env (priceFeeds st tok) \<and>
         0 < latestAnswer env (priceFeeds st (asset env)) \<and>
         priceFeeds st tok \<noteq> 0 \<and> priceFeeds st (asset env) \<noteq> 0 \<and>
         feedDecimals env (priceFeeds st tok) = feedDecimals env (priceFeeds st (asset env)) \<and>
         scaled_mul_div v (nat (latestAnswer env (priceFeeds st (asset env))))
           (nat (latestAnswer env (priceFeeds st tok)))
           (int (decimals env tok) - int (decimals env (asset env))) = Inr a"
  using assms
  by (simp add: convertAssetValueToTokenAmount_def Let_def split: if_splits)

lemma scaled_mul_div_zero:
  "scaled_mul_div 0 p q e = Inr r \<Longrightarrow> r = 0"
  by (simp add: scaled_mul_div_Inr split: if_splits)

text \<open>
  The conversion into a token amount does return: for a token with at least as many
  decimals as the base asset, set feeds with equal decimals and positive prices, it
  returns whenever the scaled product fits in 256 bits.
\<close>

lemma convertAssetValueToTokenAmount_returns:
  assumes "tok \<noteq> asset env"
    and "priceFeeds st tok \<noteq> 0" and "priceFeeds st (asset env) \<noteq> 0"
    and "0 < latestAnswer env (priceFeeds st tok)"
    and "0 < latestAnswer env (priceFeeds st (asset env))"
    and "feedDecimals env (priceFeeds st tok) = feedDecimals env (priceFeeds st (asset env))"
    and "decimals env (asset env) \<le> decimals env tok"
    and "v * nat (latestAnswer env (priceFeeds st (asset env)))
           * 10 ^ (decimals env tok - decimals env (asset env)) < 2 ^ 256"
  shows "convertAssetValueToTokenAmount env st tok v =
           Inr (v * nat (latestAnswer env (priceFeeds st (asset env)))
                  * 10 ^ (decimals env tok - decimals env (asset env))
                div nat (latestAnswer env (priceFeeds st tok)))"
proof (cases "v = 0")
  case True
  with assms(1) show ?thesis by (simp add: convertAssetValueToTokenAmount_def)
next
  case False
  let ?pa = "nat (latestAnswer env (priceFeeds st (asset env)))"
  let ?k = "decimals env tok - decimals env (asset env)"
  have e: "int (decimals env tok) - int (decimals env (asset env)) = int ?k"
    using assms(7) by simp
  from assms(5) have "0 < ?pa" by simp
  with False have "0 < v * ?pa" by simp
  then have "1 \<le> v * ?pa" by linarith
  then have "1 * 10 ^ ?k \<le> v * ?pa * 10 ^ ?k" by (rule mult_le_mono1)
  then have "10 ^ ?k \<le> v * ?pa * 10 ^ ?k" by simp
  from this assms(8) have p: "(10::nat) ^ ?k < 2 ^ 256" by (rule le_less_trans)
  have "v * ?pa \<le> v * ?pa * 10 ^ ?k" by simp
  from this assms(8) have m: "v * ?pa < 2 ^ 256" by (rule le_less_trans)
  have sc: "scaled_mul_div v ?pa (nat (latestAnswer env (priceFeeds st tok))) (int ?k) =
          Inr (v * ?pa * 10 ^ ?k div nat (latestAnswer env (priceFeeds st tok)))"
    unfolding scaled_mul_div_Inr using p m assms(8) by simp
  have "convertAssetValueToTokenAmount env st tok v =
          scaled_mul_div v ?pa (nat (latestAnswer env (priceFeeds st tok)))
            (int (decimals env tok) - int (decimals env (asset env)))"
    using False assms(1-6) by (simp add: convertAssetValueToTokenAmount_def Let_def)
  then show ?thesis unfolding e sc .
qed

text \<open>
  Claim C2, as the code has it. Write \<open>pt\<close> and \<open>pa\<close> for the prices of the token and of the
  base asset, \<open>td\<close> and \<open>ad\<close> for their decimals. Whenever \<open>amountOf(token, v)\<close> returns an
  amount \<open>a\<close> (which for a token other than the base asset and \<open>v > 0\<close> requires feeds with
  equal decimals), \<open>valueOf(token, a)\<close> returns some \<open>r\<close> with \<open>r \<le> v\<close>, and either \<open>r = v\<close>
  or \<open>pa * 10 ^ td * (v - r) < pt * 10 ^ ad + pa * 10 ^ td\<close>: the shortfall is less than the
  value of one smallest unit of the token plus one. It is within one unit when one
  smallest unit of the token is worth at most one smallest unit of the base asset
  (\<open>pt * 10 ^ ad \<le> pa * 10 ^ td\<close>). When both feeds are set and their decimals differ, both
  conversions of a non-zero amount of a token other than the base asset fail: with
  \<open>feed decimals mismatch\<close> when both prices are positive and with \<open>invalid price\<close>
  otherwise.
\<close>

theorem valuation_roundtrip:
  "(convertAssetValueToTokenAmount env st tok v = Inr a \<longrightarrow>
      (\<exists>r. getTokenValueInAsset env st tok a = Inr r \<and> r \<le> v \<and>
         (r = v \<or>
          nat (latestAnswer env (priceFeeds st (asset env))) * 10 ^ decimals env tok * (v - r)
            < nat (latestAnswer env (priceFeeds st tok)) * 10 ^ decimals env (asset env)
              + nat (latestAnswer env (priceFeeds st (asset env))) * 10 ^ decimals env tok) \<and>
         (nat (latestAnswer env (priceFeeds st tok)) * 10 ^ decimals env (asset env)
            \<le> nat (latestAnswer env (priceFeeds st (asset env))) * 10 ^ decimals env tok
          \<longrightarrow> v - r \<le> 1))) \<and>
   (tok \<noteq> asset env \<and> amount \<noteq> 0 \<and> priceFeeds st tok \<noteq> 0 \<and> priceFeeds st (asset env) \<noteq> 0 \<and>
    feedDecimals env (priceFeeds st tok) \<noteq> feedDecimals env (priceFeeds st (asset env)) \<longrightarrow>
      getTokenValueInAsset env st tok amount =
        Inl (Require (if 0 < latestAnswer env (priceFeeds st tok) \<and>
                         0 < latestAnswer env (priceFeeds st (asset env))
                      then ''AIBasketStrategy: feed decimals mismatch''
                      else ''AIBasketStrategy: invalid price'')) \<and>
      convertAssetValueToTokenAmount env st tok amount =
        Inl (Require (if 0 < latestAnswer env (priceFeeds st tok) \<and>
                         0 < latestAnswer env (priceFeeds st (asset env))
                      then ''AIBasketStrategy: feed decimals mismatch''
                      else ''AIBasketStrategy: invalid price'')))"
proof (intro conjI impI)
  let ?pa = "nat (latestAnswer env (priceFeeds st (asset env)))"
  let ?pt = "nat (latestAnswer env (priceFeeds st tok))"
  let ?td = "decimals env tok"
  let ?ad = "decimals env (asset env)"
  assume conv: "convertAssetValueToTokenAmount env st tok v = Inr a"
  show "\<exists>r. getTokenValueInAsset env st tok a = Inr r \<and> r \<le> v \<and>
         (r = v \<or> ?pa * 10 ^ ?td * (v - r) < ?pt * 10 ^ ?ad + ?pa * 10 ^ ?td) \<and>
         (?pt * 10 ^ ?ad \<le> ?pa * 10 ^ ?td \<longrightarrow> v - r \<le> 1)"
  proof (cases "tok = asset env \<or> v = 0")
    case True
    with conv have "getTokenValueInAsset env st tok a = Inr v"
      by (auto simp: convertAssetValueToTokenAmount_def getTokenValueInAsset_def)
    then show ?thesis by simp
  next
    case False
    then have nz: "tok \<noteq> asset env" "v \<noteq> 0" by simp_all
    from convertAssetValueToTokenAmount_scaled[OF nz conv]
    have pt: "0 < latestAnswer env (priceFeeds st tok)"
      and pa: "0 < latestAnswer env (priceFeeds st (asset env))"
      and feeds: "priceFeeds st tok \<noteq> 0" "priceFeeds st (asset env) \<noteq> 0"
      and fd: "feedDecimals env (priceFeeds st tok) = feedDecimals env (priceFeeds st (asset env))"
      and sc: "scaled_mul_div v ?pa ?pt (int ?td - int ?ad) = Inr a"
      by simp_all
    from pa pt nz have pos: "0 < ?pa" "0 < ?pt" "0 < v" by simp_all
    from scaled_roundtrip[OF pos sc] obtain r where
      r: "scaled_mul_div a ?pt ?pa (int ?ad - int ?td) = Inr r" and rv: "r \<le> v"
      and bound: "?pa * 10 ^ ?td * (v - r) < ?pt * 10 ^ ?ad + ?pa * 10 ^ ?td"
      by blast
    have val: "getTokenValueInAsset env st tok a = Inr r"
    proof (cases "a = 0")
      case True
      with r have "r = 0" by (simp add: scaled_mul_div_zero)
      with True nz show ?thesis by (simp add: getTokenValueInAsset_def)
    next
      case False
      with nz pt pa feeds fd r show ?thesis
        by (simp add: getTokenValueInAsset_def Let_def)
    qed
    have one: "v - r \<le> 1" if le: "?pt * 10 ^ ?ad \<le> ?pa * 10 ^ ?td"
    proof -
      define N where "N = ?pa * 10 ^ ?td"
      define D where "D = ?pt * 10 ^ ?ad"
      from bound le have "N * (v - r) < D + N" "D \<le> N" by (simp_all add: N_def D_def)
      then have "N * (v - r) < N * 2" by linarith
      then have "v - r < 2" by (rule mult_less_cancel1 [THEN iffD1, THEN conjunct2])
      then show ?thesis by simp
    qed
    from val rv bound one show ?thesis by blast
  qed
next
  assume "tok \<noteq> asset env \<and> amount \<noteq> 0 \<and> priceFeeds st tok \<noteq> 0 \<and>
          priceFeeds st (asset env) \<noteq> 0 \<and>
          feedDecimals env (priceFeeds st tok) \<noteq> feedDecimals env (priceFeeds st (asset env))"
  then show "getTokenValueInAsset env st tok amount =
        Inl (Require (if 0 < latestAnswer env (priceFeeds st tok) \<and>
                         0 < latestAnswer env (priceFeeds st (asset env))
                      then ''AIBasketStrategy: feed decimals mismatch''
                      else ''AIBasketStrategy: invalid price''))"
    by (simp add: getTokenValueInAsset_def Let_def)
next
  assume "tok \<noteq> asset env \<and> amount \<noteq> 0 \<and> priceFeeds st tok \<noteq> 0 \<and>
          priceFeeds st (asset env) \<noteq> 0 \<and>
          feedDecimals env (priceFeeds st tok) \<noteq> feedDecimals env (priceFeeds st (asset env))"
  then show "convertAssetValueToTokenAmount env st tok amount =
        Inl (Require (if 0 < latestAnswer env (priceFeeds st tok) \<and>
                         0 < latestAnswer env (priceFeeds st (asset env))
                      then ''AIBasketStrategy: feed decimals mismatch''
                      else ''AIBasketStrategy: invalid price''))"
    by (simp add: convertAssetValueToTokenAmount_def Let_def)
qed

theorem valuation_roundtrip_witness:
  "convertAssetValueToTokenAmount priced_env (example_state 0 0 0) 3 1999 = Inr 1 \<and>
   (\<exists>r. getTokenValueInAsset priced_env (example_state 0 0 0) 3 1 = Inr r \<and> r \<le> 1999) \<and>
   convertAssetValueToTokenAmount example_env (example_state 0 0 0) 3 1999 = Inr 1999 \<and>
   nat (latestAnswer example_env (priceFeeds (example_state 0 0 0) 3))
       * 10 ^ decimals example_env (asset example_env)
     \<le> nat (latestAnswer example_env (priceFeeds (example_state 0 0 0) (asset example_env)))
       * 10 ^ decimals example_env 3 \<and>
   (\<exists>r. getTokenValueInAsset example_env (example_state 0 0 0) 3 1999 = Inr r \<and> 1999 - r \<le> 1) \<and>
   (3::address) \<noteq> asset mismatch_env \<and> (5::nat) \<noteq> 0 \<and>
   priceFeeds (example_state 0 0 0) 3 \<noteq> 0 \<and>
   priceFeeds (example_state 0 0 0) (asset mismatch_env) \<noteq> 0 \<and>
   feedDecimals mismatch_env (priceFeeds (example_state 0 0 0) 3)
     \<noteq> feedDecimals mismatch_env (priceFeeds (example_state 0 0 0) (asset mismatch_env)) \<and>
   getTokenValueInAsset mismatch_env (example_state 0 0 0) 3 5
     = Inl (Require ''AIBasketStrategy: feed decimals mismatch'') \<and>
   convertAssetValueToTokenAmount mismatch_env (example_state 0 0 0) 3 5
     = Inl (Require ''AIBasketStrategy: feed decimals mismatch'')"
proof -
  have c1: "convertAssetValueToTokenAmount priced_env (example_state 0 0 0) 3 1999 = Inr 1"
    by (simp add: priced_env_def example_simps)
  have c2: "convertAssetValueToTokenAmount example_env (example_state 0 0 0) 3 1999 = Inr 1999"
    by (simp add: example_simps)
  have le: "nat (latestAnswer example_env (priceFeeds (example_state 0 0 0) 3))
       * 10 ^ decimals example_env (asset example_env)
     \<le> nat (latestAnswer example_env (priceFeeds (example_state 0 0 0) (asset example_env)))
       * 10 ^ decimals example_env 3"
    by (simp add: example_env_def example_state_def)
  have h: "(3::address) \<noteq> asset mismatch_env \<and> (5::nat) \<noteq> 0 \<and>
     priceFeeds (example_state 0 0 0) 3 \<noteq> 0 \<and>
     priceFeeds (example_state 0 0 0) (asset mismatch_env) \<noteq> 0 \<and>
     feedDecimals mismatch_env (priceFeeds (example_state 0 0 0) 3)
       \<noteq> feedDecimals mismatch_env (priceFeeds (example_state 0 0 0) (asset mismatch_env))"
    by (simp add: mismatch_env_def example_env_def example_state_def)
  have p: "0 < latestAnswer mismatch_env (priceFeeds (example_state 0 0 0) 3) \<and>
           0 < latestAnswer mismatch_env (priceFeeds (example_state 0 0 0) (asset mismatch_env))"
    by (simp add: mismatch_env_def example_env_def example_state_def)
  from valuation_roundtrip [of priced_env "example_state 0 0 0" 3 1999 1] c1
  have w1: "\<exists>r. getTokenValueInAsset priced_env (example_state 0 0 0) 3 1 = Inr r \<and> r \<le> 1999"
    by blast
  from valuation_roundtrip [of example_env "example_state 0 0 0" 3 1999 1999] c2 le
  have w2: "\<exists>r. getTokenValueInAsset example_env (example_state 0 0 0) 3 1999 = Inr r \<and>
                1999 - r \<le> 1"
    by blast
  from valuation_roundtrip [of mismatch_env "example_state 0 0 0" 3 _ _ 5] h p
  have w3: "getTokenValueInAsset mismatch_env (example_state 0 0 0) 3 5
          = Inl (Require ''AIBasketStrategy: feed decimals mismatch'') \<and>
        convertAssetValueToTokenAmount mismatch_env (example_state 0 0 0) 3 5
          = Inl (Require ''AIBasketStrategy: feed decimals mismatch'')"
    by simp
  from c1 w1 c2 le w2 h w3 show ?thesis by blast
qed

text \<open>
  The claim as stated fails on both counts. With token 3 worth 1000 base units per unit
  and equal feed decimals, 1999 converts to 1 unit of the token and back to 1000, which is
  999 short. With mismatched feed decimals a zero amount converts to 0 without an error.
\<close>

theorem valuation_roundtrip_counterexample:
  "convertAssetValueToTokenAmount priced_env (example_state 0 0 0) 3 1999 = Inr 1 \<and>
   getTokenValueInAsset priced_env (example_state 0 0 0) 3 1 = Inr 1000 \<and>
   feedDecimals mismatch_env (priceFeeds (example_state 0 0 0) 3)
     \<noteq> feedDecimals mismatch_env (priceFeeds (example_state 0 0 0) (asset mismatch_env)) \<and>
   getTokenValueInAsset mismatch_env (example_state 0 0 0) 3 0 = Inr 0 \<and>
   convertAssetValueToTokenAmount mismatch_env (example_state 0 0 0) 3 0 = Inr 0"
  by (simp add: priced_env_def mismatch_env_def example_simps)

section \<open>Total value\<close>





section \<open>Rebalancer: the pass\<close>

text \<open>
  The loop body of \<open>_rebalancePortfolio\<close>, case by case: with the target and current values
  computed and neither sum with the threshold overflowing, it is the buy, the capped sell
  or nothing.
\<close>

lemma rebalance_step_cases:
  fixes totalValue :: uint256
  defines "threshold \<equiv> totalValue div 100"
  assumes "totalValue * percentage a < 2 ^ 256"
    and "targetValue = totalValue * percentage a div 10000"
    and "currentValueOf env st (token a) = Inr currentValue"
    and "currentValue + threshold < 2 ^ 256"
    and "targetValue + threshold < 2 ^ 256"
  shows "rebalance_step env totalValue a st =
     (if currentValue + threshold < targetValue
      then swapToken env (asset env) (token a) (targetValue - currentValue) st
      else if currentValue > targetValue + threshold
      then (case convertAssetValueToTokenAmount env st (token a) (currentValue - targetValue) of
              Inl err \<Rightarrow> Inl err
            | Inr tokenAmount \<Rightarrow>
                swapToken env (token a) (asset env)
                  (min tokenAmount (balanceOf (chain st) (token a))) st)
      else Inr st)"
  using assms
  by (auto simp: rebalance_step_def checked_mul_def checked_add_def Let_def MAX_BPS_def
        convertAssetValueToTokenAmount_def swapToken_def min_def split: sum.splits)

text \<open>
  The current value the loop computes is the valuation of the whole holding; swapping a
  token into itself does nothing; converting a value of the base asset is the identity.
\<close>

lemma currentValueOf_valuation:
  "currentValueOf env st tok = getTokenValueInAsset env st tok (balanceOf (chain st) tok)"
  by (simp add: currentValueOf_def getTokenValueInAsset_def)

lemma swapToken_same_token: "swapToken env tok tok amount st = Inr st"
  by (simp add: swapToken_def)

lemma convertAssetValueToTokenAmount_asset:
  "convertAssetValueToTokenAmount env st (asset env) amount = Inr amount"
  by (simp add: convertAssetValueToTokenAmount_def)

text \<open>The loop body is the step of the specification, and the loop is its pass.\<close>

lemma rebalance_step_spec:
  "rebalance_step env totalValue a st = spec_rebalance_step env totalValue a st"
proof (cases "token a = asset env")
  case True
  then show ?thesis
    by (auto simp: rebalance_step_def spec_rebalance_step_def currentValueOf_valuation
          checked_mul_def checked_add_def Let_def MAX_BPS_def decide_def execute_decision_def
          target_value_def rebalance_threshold_def swapToken_same_token
          convertAssetValueToTokenAmount_asset
          split: sum.splits)
next
  case False
  then show ?thesis
    by (auto simp: rebalance_step_def spec_rebalance_step_def currentValueOf_valuation
          checked_mul_def checked_add_def Let_def MAX_BPS_def decide_def execute_decision_def
          target_value_def rebalance_threshold_def min_def
          split: sum.splits)
qed

lemma foldl_failed:
  "foldl (\<lambda>r a. case r of Inl err \<Rightarrow> Inl err | Inr st' \<Rightarrow> f a st') (Inl e) xs = Inl e"
  by (induction xs) simp_all

lemma rebalance_loop_spec:
  "rebalance_loop env totalValue allocs st = spec_rebalance_pass env totalValue allocs st"
proof (induction allocs arbitrary: st)
  case Nil
  then show ?case by (simp add: spec_rebalance_pass_def)
next
  case (Cons a allocs)
  show ?case
  proof (cases "spec_rebalance_step env totalValue a st")
    case (Inl e)
    then show ?thesis
      by (simp add: rebalance_step_spec spec_rebalance_pass_def foldl_failed)
  next
    case (Inr st')
    with Cons.IH[of st'] show ?thesis
      by (simp add: rebalance_step_spec spec_rebalance_pass_def)
  qed
qed

text \<open>
  Claim C4. A rebalance pass from a state whose total value \<open>totalAssets\<close> is
  \<open>totalValue > 0\<close> is the pass of the specification: for each allocation in registry
  order, from the state the previous allocation left, with
  \<open>targetValue = totalValue * weightBps / 10000\<close>, threshold \<open>totalValue / 100\<close> and
  \<open>currentValue\<close> the valuation of the token's holding, it swaps
  \<open>targetValue - currentValue\<close> of base asset into the token when
  \<open>currentValue + threshold < targetValue\<close>, it swaps the \<open>amountOf\<close>-converted
  \<open>currentValue - targetValue\<close>, capped at the holding, into the base asset when
  \<open>currentValue > targetValue + threshold\<close>, and otherwise it does nothing for that token.
\<close>

theorem rebalance_pass_decisions:
  assumes "totalAssets env st = Inr totalValue" and "0 < totalValue"
  shows "rebalancePortfolio env st =
           spec_rebalance_pass env totalValue (allocations st) st"
proof (cases "allocations st")
  case Nil
  then show ?thesis by (simp add: rebalancePortfolio_def spec_rebalance_pass_def)
next
  case (Cons a allocs)
  with assms show ?thesis
    by (simp add: rebalancePortfolio_def rebalance_loop_spec)
qed

theorem rebalance_pass_decisions_witness:
  "totalAssets example_env (example_state 100 500 400) = Inr 1000 \<and> (0::nat) < 1000 \<and>
   decide 1000 6000 500 = Buy 100 \<and> decide 1000 4000 400 = Hold \<and>
   rebalancePortfolio example_env (example_state 100 500 400) =
     spec_rebalance_pass example_env 1000
       [\<lparr>token = 3, percentage = 6000\<rparr>, \<lparr>token = 4, percentage = 4000\<rparr>]
       (example_state 100 500 400) \<and>
   rebalancePortfolio example_env (example_state 100 500 400) =
     swapToken example_env 1 3 100 (example_state 100 500 400)"
proof -
  have ta: "totalAssets example_env (example_state 100 500 400) = Inr 1000"
    by (simp add: example_simps)
  have al: "allocations (example_state 100 500 400) =
      [\<lparr>token = 3, percentage = 6000\<rparr>, \<lparr>token = 4, percentage = 4000\<rparr>]"
    by (simp add: example_state_def)
  have d: "decide 1000 6000 500 = Buy 100" "decide 1000 4000 400 = Hold"
    by (simp_all add: decide_def target_value_def rebalance_threshold_def)
  from rebalance_pass_decisions [OF ta]
  have eq: "rebalancePortfolio example_env (example_state 100 500 400) =
     spec_rebalance_pass example_env 1000
       [\<lparr>token = 3, percentage = 6000\<rparr>, \<lparr>token = 4, percentage = 4000\<rparr>]
       (example_state 100 500 400)"
    by (simp add: al)
  have "spec_rebalance_pass example_env 1000
       [\<lparr>token = 3, percentage = 6000\<rparr>, \<lparr>token = 4, percentage = 4000\<rparr>]
       (example_state 100 500 400) = swapToken example_env 1 3 100 (example_state 100 500 400)"
    by (simp add: spec_rebalance_pass_def spec_rebalance_step_def d execute_decision_def
          target_value_def rebalance_threshold_def example_simps)
  with ta d eq show ?thesis by simp
qed

text \<open>The decisions of the two scenarios of the specification.\<close>

lemma decide_scenario:
  "decide 1000 6000 550 = Buy 50" "decide 1000 4000 450 = Sell 50"
  "decide 1000 6000 595 = Hold" "decide 1000 4000 405 = Hold"
  by (simp_all add: decide_def target_value_def rebalance_threshold_def)

text \<open>The loop takes the allocations in list order, each step from the state the previous left.\<close>

lemma rebalance_loop_append:
  "rebalance_loop env totalValue (xs @ ys) st =
     (case rebalance_loop env totalValue xs st of
        Inl err \<Rightarrow> Inl err
      | Inr st' \<Rightarrow> rebalance_loop env totalValue ys st')"
  by (induction xs arbitrary: st) (auto split: sum.splits)

text \<open>
  The scenario of the specification (total value 1000, token 3 at 550, token 4 at 450) on
  a strategy that holds no base asset: the pass asks to buy 50 of token 3, which the
  exchange refuses for lack of base asset, then sells 50 of token 4. With 100 of base asset
  and 500 and 400 of the tokens, it buys 100 of token 3 and leaves token 4 alone.
\<close>

lemma rebalance_example:
  "(case rebalancePortfolio example_env (example_state 0 550 450) of
      Inl err \<Rightarrow> False
    | Inr st' \<Rightarrow>
        routerCalls st' =
          [GetAmountsOut 50 [1, 2, 3], SwapExactTokensForTokens 50 47 [1, 2, 3],
           GetAmountsOut 50 [4, 2, 1], SwapExactTokensForTokens 50 47 [4, 2, 1]] \<and>
        map (balanceOf (chain st')) [1, 3, 4] = [50, 550, 400] \<and>
        map (allowance (chain st')) [1, 3, 4] = [0, 0, 0])"
  by (simp add: rebalancePortfolio_def rebalance_step_def currentValueOf_def example_simps)

lemma rebalance_example_funded:
  "(case rebalancePortfolio example_env (example_state 100 500 400) of
      Inl err \<Rightarrow> False
    | Inr st' \<Rightarrow>
        routerCalls st' =
          [GetAmountsOut 100 [1, 2, 3], SwapExactTokensForTokens 100 95 [1, 2, 3]] \<and>
        map (balanceOf (chain st')) [1, 3, 4] = [0, 600, 400])"
  by (simp add: rebalancePortfolio_def rebalance_step_def currentValueOf_def example_simps)

section \<open>Rebalancer: no breach, no swaps\<close>

lemma rebalance_step_within:
  "within_threshold env st totalValue a \<Longrightarrow> rebalance_step env totalValue a st = Inr st"
  by (auto simp: within_threshold_def rebalance_step_def checked_mul_def checked_add_def
        Let_def MAX_BPS_def split: sum.splits)

lemma rebalance_loop_within:
  "\<forall>a \<in> set as. within_threshold env st totalValue a \<Longrightarrow>
   rebalance_loop env totalValue as st = Inr st"
  by (induction as) (simp_all add: rebalance_step_within)

text \<open>
  Claim C7. If every allocation is within the threshold for the total value of the
  state, the rebalance pass returns the state it was given: no call to the router is
  recorded and no balance changes. A second pass right after the first therefore starts
  from the same state and returns it again.
\<close>

theorem rebalance_no_breach_no_swaps:
  assumes "totalAssets env st = Inr totalValue"
    and "\<forall>a \<in> set (allocations st). within_threshold env st totalValue a"
  shows "rebalancePortfolio env st = Inr st \<and>
         (case rebalancePortfolio env st of
            Inl err \<Rightarrow> Inl err
          | Inr st' \<Rightarrow> rebalancePortfolio env st') = Inr st"
proof -
  have "rebalancePortfolio env st = Inr st"
    using assms by (simp add: rebalancePortfolio_def rebalance_loop_within)
  then show ?thesis by simp
qed

theorem rebalance_no_breach_no_swaps_witness:
  "totalAssets example_env (example_state 0 595 405) = Inr 1000 \<and>
   allocations (example_state 0 595 405)
     = [\<lparr>token = 3, percentage = 6000\<rparr>, \<lparr>token = 4, percentage = 4000\<rparr>] \<and>
   within_threshold example_env (example_state 0 595 405) 1000 \<lparr>token = 3, percentage = 6000\<rparr> \<and>
   within_threshold example_env (example_state 0 595 405) 1000 \<lparr>token = 4, percentage = 4000\<rparr> \<and>
   rebalancePortfolio example_env (example_state 0 595 405) = Inr (example_state 0 595 405)"
proof -
  have al: "allocations (example_state 0 595 405)
     = [\<lparr>token = 3, percentage = 6000\<rparr>, \<lparr>token = 4, percentage = 4000\<rparr>]"
    by (simp add: example_state_def)
  have w3: "within_threshold example_env (example_state 0 595 405) 1000
              \<lparr>token = 3, percentage = 6000\<rparr>"
    by (simp add: within_threshold_def currentValueOf_def example_env_def example_state_def
          getTokenValueInAsset_def scaled_mul_div_def checked_mul_def checked_pow_def)
  have w4: "within_threshold example_env (example_state 0 595 405) 1000
              \<lparr>token = 4, percentage = 4000\<rparr>"
    by (simp add: within_threshold_def currentValueOf_def example_env_def example_state_def
          getTokenValueInAsset_def scaled_mul_div_def checked_mul_def checked_pow_def)
  have ta: "totalAssets example_env (example_state 0 595 405) = Inr 1000"
    by (simp add: totalAssets_def example_env_def example_state_def getTokenValueInAsset_def
          scaled_mul_div_def checked_mul_def checked_add_def checked_pow_def)
  have wt: "\<forall>a \<in> set (allocations (example_state 0 595 405)).
      within_threshold example_env (example_state 0 595 405) 1000 a"
    using w3 w4 by (simp add: al)
  from rebalance_no_breach_no_swaps [OF ta wt] ta al w3 w4 show ?thesis by simp
qed

section \<open>Valuation failures inside a pass\<close>

text \<open>
  \<open>totalAssets\<close> reverts as soon as one listed token with a non-zero balance cannot be
  valued.
\<close>

lemma totalAssets_loop_fails:
  assumes "a \<in> set as" and "token a \<noteq> asset env"
    and "balanceOf (chain st) (token a) > 0"
    and "getTokenValueInAsset env st (token a) (balanceOf (chain st) (token a)) = Inl e"
  shows "\<exists>e'. totalAssets_loop env st as totalValue = Inl e'"
  using assms(1)
proof (induction as arbitrary: totalValue)
  case Nil
  then show ?case by simp
next
  case (Cons b as)
  show ?case
  proof (cases "b = a")
    case True
    with assms(2-4) show ?thesis by simp
  next
    case False
    with Cons.prems have "a \<in> set as" by simp
    from Cons.IH[OF this] show ?thesis
      by (auto simp: Let_def split: sum.splits)
  qed
qed

text \<open>
  Claim C5, as the code has it. A listed token other than the base asset, with a non-zero
  balance, whose valuation fails (missing feed, non-positive price, mismatched feed
  decimals, or overflow) makes the whole rebalance pass and the whole liquidation pass
  revert, with the same error: both start by calling \<open>totalAssets\<close>, which values every
  listed holding without a \<open>try\<close>. No step runs and the state stays as it was.
\<close>

theorem valuation_failure_fails_pass:
  assumes "a \<in> set (allocations st)" and "token a \<noteq> asset env"
    and "balanceOf (chain st) (token a) > 0"
    and "getTokenValueInAsset env st (token a) (balanceOf (chain st) (token a)) = Inl e"
  shows "\<exists>e'. rebalancePortfolio env st = Inl e' \<and>
              liquidateForWithdrawal env neededAmount st = Inl e' \<and>
              after_call st (rebalancePortfolio env st) = st \<and>
              after_call st (liquidateForWithdrawal env neededAmount st) = st"
proof -
  from totalAssets_loop_fails[OF assms] obtain e' where "totalAssets env st = Inl e'"
    unfolding totalAssets_def by blast
  moreover from assms(1) have "length (allocations st) \<noteq> 0" by auto
  ultimately show ?thesis
    by (simp add: rebalancePortfolio_def liquidateForWithdrawal_def after_call_def)
qed

theorem valuation_failure_fails_pass_witness:
  "\<lparr>token = 3, percentage = 6000\<rparr> \<in> set (allocations (example_state 0 550 450)) \<and>
   token \<lparr>token = 3, percentage = 6000\<rparr> \<noteq> asset zero_price_env \<and>
   balanceOf (chain (example_state 0 550 450)) 3 > 0 \<and>
   getTokenValueInAsset zero_price_env (example_state 0 550 450) 3 550
     = Inl (Require ''AIBasketStrategy: invalid price'') \<and>
   (\<exists>e'. rebalancePortfolio zero_price_env (example_state 0 550 450) = Inl e' \<and>
      liquidateForWithdrawal zero_price_env 100 (example_state 0 550 450) = Inl e')"
proof -
  have m: "\<lparr>token = 3, percentage = 6000\<rparr> \<in> set (allocations (example_state 0 550 450))"
    by (simp add: example_state_def)
  have t: "token \<lparr>token = 3, percentage = 6000\<rparr> \<noteq> asset zero_price_env"
    by (simp add: zero_price_env_def example_env_def)
  have b: "balanceOf (chain (example_state 0 550 450)) (token \<lparr>token = 3, percentage = 6000\<rparr>) > 0"
    by (simp add: example_state_def)
  have v: "getTokenValueInAsset zero_price_env (example_state 0 550 450)
             (token \<lparr>token = 3, percentage = 6000\<rparr>)
             (balanceOf (chain (example_state 0 550 450)) (token \<lparr>token = 3, percentage = 6000\<rparr>))
           = Inl (Require ''AIBasketStrategy: invalid price'')"
    by (simp add: getTokenValueInAsset_def zero_price_env_def example_env_def example_state_def)
  have v': "getTokenValueInAsset zero_price_env (example_state 0 550 450) 3 550
     = Inl (Require ''AIBasketStrategy: invalid price'')"
    using v by (simp add: example_state_def)
  from valuation_failure_fails_pass [OF m t b v, of 100] m t b v'
  show ?thesis by auto
qed

text \<open>
  The claim as stated fails: with a zero price for token 3, the pass over tokens 3 and 4
  does not skip token 3 and go on to token 4 (whose valuation succeeds): the call reverts.
\<close>

theorem valuation_failure_counterexample:
  "getTokenValueInAsset zero_price_env (example_state 0 550 450) 4 450 = Inr 450 \<and>
   rebalancePortfolio zero_price_env (example_state 0 550 450)
     = Inl (Require ''AIBasketStrategy: invalid price'') \<and>
   liquidateForWithdrawal zero_price_env 100 (example_state 0 550 450)
     = Inl (Require ''AIBasketStrategy: invalid price'')"
  by (simp add: rebalancePortfolio_def liquidateForWithdrawal_def totalAssets_def
        getTokenValueInAsset_def zero_price_env_def example_env_def example_state_def
        scaled_mul_div_def checked_mul_def checked_pow_def)

section \<open>Liquidator: proportional liquidation\<close>













section \<open>Swap execution: slippage bound and failed execution\<close>

text \<open>
  Claim C8. Whenever a swap goes to execution (distinct tokens, non-zero amount, the quote
  along the built path succeeds with a non-empty array whose last entry times 9500 fits in
  256 bits), \<open>_swapToken\<close> calls \<open>swapExactTokensForTokens\<close> of the router, after the
  approval, with the amount, the built path and the minimum output
  \<open>expectedOutput * (10000 - 500) / 10000\<close>, where \<open>expectedOutput\<close> is the last entry of
  the quote; the result of \<open>_swapToken\<close> is what that call leaves: the chain the exchange
  returns when it succeeds, the allowance set back to zero when it reverts.
\<close>

theorem swapToken_amountOutMin:
  assumes "fromToken \<noteq> toToken" and "amount \<noteq> 0"
    and "getAmountsOut env (chain st) amount (buildPath env fromToken toToken) = Some amountsOut"
    and "amountsOut \<noteq> []"
    and "last amountsOut * (MAX_BPS - MAX_SLIPPAGE) < 2 ^ 256"
  shows "swapToken env fromToken toToken amount st =
     (case swapExactTokensForTokens env
             ((chain st)\<lparr>allowance := (allowance (chain st))(fromToken := amount)\<rparr>)
             amount (last amountsOut * (10000 - 500) div 10000)
             (buildPath env fromToken toToken) of
        Some c \<Rightarrow>
          Inr (st\<lparr>chain := c,
                  routerCalls := routerCalls st @
                    [GetAmountsOut amount (buildPath env fromToken toToken),
                     SwapExactTokensForTokens amount (last amountsOut * (10000 - 500) div 10000)
                       (buildPath env fromToken toToken)]\<rparr>)
      | None \<Rightarrow>
          Inr (st\<lparr>chain := (chain st)\<lparr>allowance := (allowance (chain st))(fromToken := 0)\<rparr>,
                  routerCalls := routerCalls st @
                    [GetAmountsOut amount (buildPath env fromToken toToken),
                     SwapExactTokensForTokens amount (last amountsOut * (10000 - 500) div 10000)
                       (buildPath env fromToken toToken)]\<rparr>))"
  using assms
  by (auto simp: swapToken_def checked_mul_def Let_def MAX_BPS_def MAX_SLIPPAGE_def
           split: option.splits)

theorem swapToken_amountOutMin_witness:
  "(1::address) \<noteq> 3 \<and> (50::nat) \<noteq> 0 \<and>
   getAmountsOut (slipping_env 47) (chain (example_state 100 0 0)) 50
     (buildPath (slipping_env 47) 1 3) = Some [50, 50, 50] \<and>
   getAmountsOut (slipping_env 46) (chain (example_state 100 0 0)) 50
     (buildPath (slipping_env 46) 1 3) = Some [50, 50, 50] \<and>
   (case swapToken (slipping_env 47) 1 3 50 (example_state 100 0 0) of
      Inl err \<Rightarrow> False
    | Inr st' \<Rightarrow>
        map (balanceOf (chain st')) [1, 3] = [50, 47] \<and>
        routerCalls st' =
          [GetAmountsOut 50 [1, 2, 3], SwapExactTokensForTokens 50 47 [1, 2, 3]]) \<and>
   (case swapToken (slipping_env 46) 1 3 50 (example_state 100 0 0) of
      Inl err \<Rightarrow> False
    | Inr st' \<Rightarrow>
        map (balanceOf (chain st')) [1, 3] = [100, 0] \<and>
        routerCalls st' =
          [GetAmountsOut 50 [1, 2, 3], SwapExactTokensForTokens 50 47 [1, 2, 3]])"
proof -
  have q47: "getAmountsOut (slipping_env 47) (chain (example_state 100 0 0)) 50
     (buildPath (slipping_env 47) 1 3) = Some [50, 50, 50]"
    by (simp add: slipping_env_def example_env_def buildPath_def)
  have q46: "getAmountsOut (slipping_env 46) (chain (example_state 100 0 0)) 50
     (buildPath (slipping_env 46) 1 3) = Some [50, 50, 50]"
    by (simp add: slipping_env_def example_env_def buildPath_def)
  have b: "last [50, 50, 50] * (MAX_BPS - MAX_SLIPPAGE) < 2 ^ 256"
    by (simp add: MAX_BPS_def MAX_SLIPPAGE_def)
  from swapToken_amountOutMin [of 1 3 50 "slipping_env 47" "example_state 100 0 0"
         "[50, 50, 50]", OF _ _ q47 _ b]
  have r47: "case swapToken (slipping_env 47) 1 3 50 (example_state 100 0 0) of
      Inl err \<Rightarrow> False
    | Inr st' \<Rightarrow>
        map (balanceOf (chain st')) [1, 3] = [50, 47] \<and>
        routerCalls st' =
          [GetAmountsOut 50 [1, 2, 3], SwapExactTokensForTokens 50 47 [1, 2, 3]]"
    by (simp add: slipping_env_def slipping_exchange_def example_env_def example_state_def
          buildPath_def)
  from swapToken_amountOutMin [of 1 3 50 "slipping_env 46" "example_state 100 0 0"
         "[50, 50, 50]", OF _ _ q46 _ b]
  have r46: "case swapToken (slipping_env 46) 1 3 50 (example_state 100 0 0) of
      Inl err \<Rightarrow> False
    | Inr st' \<Rightarrow>
        map (balanceOf (chain st')) [1, 3] = [100, 0] \<and>
        routerCalls st' =
          [GetAmountsOut 50 [1, 2, 3], SwapExactTokensForTokens 50 47 [1, 2, 3]]"
    by (simp add: slipping_env_def slipping_exchange_def example_env_def example_state_def
          buildPath_def)
  from q47 q46 r47 r46 show ?thesis by simp
qed

text \<open>
  Claim C9, as the code has it. If the execution call of a swap reverts, \<open>_swapToken\<close> still
  returns normally (no error reaches the caller), the allowance of the from-token is zero
  afterwards, and nothing else has changed: balances, the other allowances, the exchange
  and the storage of the strategy are as before. Nothing reports the failure:
  \<open>_swapToken\<close> has no return value and no event is emitted.
\<close>

theorem swapToken_exec_failure:
  assumes "fromToken \<noteq> toToken" and "amount \<noteq> 0"
    and "getAmountsOut env (chain st) amount (buildPath env fromToken toToken) = Some amountsOut"
    and "amountsOut \<noteq> []"
    and "last amountsOut * (MAX_BPS - MAX_SLIPPAGE) < 2 ^ 256"
    and "swapExactTokensForTokens env
           ((chain st)\<lparr>allowance := (allowance (chain st))(fromToken := amount)\<rparr>)
           amount (last amountsOut * (MAX_BPS - MAX_SLIPPAGE) div MAX_BPS)
           (buildPath env fromToken toToken) = None"
  shows "\<exists>st'. swapToken env fromToken toToken amount st = Inr st' \<and>
           allowance (chain st') fromToken = 0 \<and>
           balanceOf (chain st') = balanceOf (chain st) \<and>
           pools (chain st') = pools (chain st) \<and>
           (\<forall>t. t \<noteq> fromToken \<longrightarrow> allowance (chain st') t = allowance (chain st) t) \<and>
           allocations st' = allocations st \<and> allowedTokens st' = allowedTokens st \<and>
           priceFeeds st' = priceFeeds st \<and>
           events st' = events st"
  using assms
  by (auto simp: swapToken_def checked_mul_def Let_def split: option.splits)

theorem swapToken_exec_failure_witness:
  "(3::address) \<noteq> 1 \<and> (50::nat) \<noteq> 0 \<and>
   getAmountsOut failing_exchange_env (chain (example_state 0 550 450)) 50
     (buildPath failing_exchange_env 3 1) = Some [50, 50, 50] \<and>
   swapExactTokensForTokens failing_exchange_env
     ((chain (example_state 0 550 450))
        \<lparr>allowance := (allowance (chain (example_state 0 550 450)))(3 := 50)\<rparr>)
     50 47 [3, 2, 1] = None \<and>
   (\<exists>st'. swapToken failing_exchange_env 3 1 50 (example_state 0 550 450) = Inr st' \<and>
      allowance (chain st') 3 = 0 \<and>
      balanceOf (chain st') = balanceOf (chain (example_state 0 550 450)) \<and>
      events st' = [])"
  using swapToken_exec_failure [of 3 1 50 failing_exchange_env "example_state 0 550 450"
          "[50, 50, 50]"]
  by (auto simp: failing_exchange_env_def example_env_def example_state_def buildPath_def
        MAX_BPS_def MAX_SLIPPAGE_def)

text \<open>
  The claim as stated fails on the report. With an exchange whose execution always
  reverts, the swap of 50 of token 3 returns normally with no event and with the
  balances as before; and \<open>emergencyExitAllPositions\<close>, which calls \<open>_swapToken\<close> and
  then emits \<open>EmergencyExit\<close>, emits the same two events whether the swaps executed (the
  one-for-one exchange, which leaves 1000 of base asset) or not (the failing exchange,
  which leaves the 550 and 450 of the tokens).
\<close>

theorem swapToken_no_report_counterexample:
  "(case swapToken failing_exchange_env 3 1 50 (example_state 0 550 450) of
      Inl err \<Rightarrow> False
    | Inr st' \<Rightarrow>
        events st' = [] \<and> map (balanceOf (chain st')) [1, 3, 4] = [0, 550, 450]) \<and>
   (case emergencyExitAllPositions failing_exchange_env (example_state 0 550 450) of
      Inl err \<Rightarrow> False
    | Inr st' \<Rightarrow>
        events st' = [EmergencyExit 3 550, EmergencyExit 4 450] \<and>
        map (balanceOf (chain st')) [1, 3, 4] = [0, 550, 450]) \<and>
   (case emergencyExitAllPositions example_env (example_state 0 550 450) of
      Inl err \<Rightarrow> False
    | Inr st' \<Rightarrow>
        events st' = [EmergencyExit 3 550, EmergencyExit 4 450] \<and>
        map (balanceOf (chain st')) [1, 3, 4] = [1000, 0, 0])"
  by (simp add: emergencyExitAllPositions_def failing_exchange_env_def example_simps)

section \<open>Emergency exit\<close>

lemma swapToken_allocations:
  "swapToken env f t amount st = Inr st' \<Longrightarrow> allocations st' = allocations st"
  by (auto simp: swapToken_def Let_def split: option.splits if_splits sum.splits)

lemma emergencyExit_loop_allocations:
  "emergencyExit_loop env as st = Inr st' \<Longrightarrow> allocations st' = allocations st"
proof (induction as arbitrary: st)
  case Nil
  then show ?case by simp
next
  case (Cons a as)
  then show ?case
    by (auto simp: Let_def split: if_splits sum.splits dest: swapToken_allocations)
qed

lemma swapToken_quote_fails:
  "getAmountsOut env (chain st) amount (buildPath env f t) = None \<Longrightarrow>
   \<exists>st'. swapToken env f t amount st = Inr st' \<and> chain st' = chain st \<and> allocations st' = allocations st"
  by (auto simp: swapToken_def Let_def)

lemma emergencyExit_loop_no_quotes:
  assumes "\<forall>c amount path. getAmountsOut env c amount path = None"
  shows "\<exists>st'. emergencyExit_loop env as st = Inr st' \<and> chain st' = chain st"
proof (induction as arbitrary: st)
  case Nil
  then show ?case by simp
next
  case (Cons a as)
  show ?case
  proof (cases "token a \<noteq> asset env \<and> balanceOf (chain st) (token a) > 0")
    case True
    from assms have "getAmountsOut env (chain st) (balanceOf (chain st) (token a))
        (buildPath env (token a) (asset env)) = None" by simp
    from swapToken_quote_fails[OF this] obtain s1 where
      s1: "swapToken env (token a) (asset env) (balanceOf (chain st) (token a)) st = Inr s1"
        "chain s1 = chain st" by blast
    let ?s1 = "s1\<lparr>events := events s1 @
                  [EmergencyExit (token a) (balanceOf (chain st) (token a))]\<rparr>"
    from Cons.IH[of ?s1] obtain s2 where
      "emergencyExit_loop env as ?s1 = Inr s2" "chain s2 = chain ?s1"
      by blast
    with s1 True show ?thesis by (simp add: Let_def)
  next
    case False
    with Cons.IH[of st] show ?thesis by (auto simp: Let_def)
  qed
qed

text \<open>
  Claim C10. Whenever \<open>emergencyExitAllPositions\<close> returns, the allocations are empty; and
  when every quote of the exchange fails, it does return, with empty allocations and with
  every balance as it was, so the strategy still holds its non-base tokens.
\<close>

theorem emergencyExit_clears_allocations:
  "(emergencyExitAllPositions env st = Inr st' \<longrightarrow> allocations st' = []) \<and>
   ((\<forall>c amount path. getAmountsOut env c amount path = None) \<longrightarrow>
      (\<exists>st''. emergencyExitAllPositions env st = Inr st'' \<and> allocations st'' = [] \<and>
         balanceOf (chain st'') = balanceOf (chain st)))"
proof (intro conjI impI)
  assume "emergencyExitAllPositions env st = Inr st'"
  then show "allocations st' = []"
    by (auto simp: emergencyExitAllPositions_def split: sum.splits)
next
  assume "\<forall>c amount path. getAmountsOut env c amount path = None"
  from emergencyExit_loop_no_quotes[OF this, of "allocations st" st]
  show "\<exists>st''. emergencyExitAllPositions env st = Inr st'' \<and> allocations st'' = [] \<and>
         balanceOf (chain st'') = balanceOf (chain st)"
    by (auto simp: emergencyExitAllPositions_def)
qed

theorem emergencyExit_clears_allocations_witness:
  "(\<forall>c amount path. getAmountsOut no_quote_env c amount path = None) \<and>
   (\<exists>st''. emergencyExitAllPositions no_quote_env (example_state 0 550 450) = Inr st'' \<and>
      allocations st'' = [] \<and> balanceOf (chain st'') 3 = 550 \<and> balanceOf (chain st'') 4 = 450)"
proof -
  have q: "\<forall>c amount path. getAmountsOut no_quote_env c amount path = None"
    by (simp add: no_quote_env_def)
  from emergencyExit_clears_allocations [of no_quote_env "example_state 0 550 450"] q
  obtain st'' where "emergencyExitAllPositions no_quote_env (example_state 0 550 450) = Inr st''"
    "allocations st'' = []" "balanceOf (chain st'') = balanceOf (chain (example_state 0 550 450))"
    by blast
  then show ?thesis using q by (auto simp: example_state_def)
qed

end
